theory Spec2Isabelle
  imports Main "HOL-Library.AList"
begin

section \<open>The analytics profiles data store\<close>

text \<open>
  A shallow embedding of \<^verbatim>\<open>modules/analytics\<close> data store \<^verbatim>\<open>profiles\<close>
  (\<^verbatim>\<open>src/unnamed/part_001\<close>). JavaScript objects used as dictionaries are
  association lists of their own properties: \<^verbatim>\<open>{ ...o, [k]: v }\<close> is
  \<open>AList.update k v o\<close>, \<^verbatim>\<open>Object.values(o)\<close> is \<open>map snd o\<close>, and \<^verbatim>\<open>o[k]\<close> is
  \<open>map_of o k\<close> (\<open>None\<close> is \<^verbatim>\<open>undefined\<close>) for every key that is an own property
  or that is not the name of a member of \<^verbatim>\<open>Object.prototype\<close>.
\<close>

subsection \<open>Data\<close>

text \<open>An Analytics profile as the REST API returns it; the resolver reads its \<^verbatim>\<open>id\<close>.\<close>

record profile =
  profile_id :: string
  profile_name :: string

text \<open>The error payload of a failed request: \<^verbatim>\<open>{ code, message, data: { status } }\<close>.\<close>

record apierror =
  code :: string
  message :: string
  status :: nat

text \<open>What \<^verbatim>\<open>invariant( cond, message )\<close> throws when \<^verbatim>\<open>cond\<close> is false.\<close>

datatype js_error = Invariant string

text \<open>
  The imports of the module that are not among the sources are parameters of the model:
  the validators and the parser of \<^verbatim>\<open>../util\<close> (\<open>parsePropertyID\<close> gives the
  \<^verbatim>\<open>accountID\<close> of a property ID) and the constant of \<^verbatim>\<open>./constants\<close>.
\<close>

record util =
  isValidPropertyID :: "string \<Rightarrow> bool"
  isValidProfileName :: "string \<Rightarrow> bool"
  parsePropertyID :: "string \<Rightarrow> string"
  PROFILE_CREATE :: string

text \<open>
  A call of \<^verbatim>\<open>API.get\<close> or \<^verbatim>\<open>API.set\<close>: type, identifier, datapoint and data;
  \<^verbatim>\<open>API.get\<close> also carries its \<^verbatim>\<open>useCache\<close> option.
\<close>

datatype request =
  API_get string string string "(string \<times> string) list" bool
| API_set string string string "(string \<times> string) list"

text \<open>
  The state of the combined store. \<open>profiles\<close> is the field of the base store;
  \<open>isFetchingGetProfiles\<close> and \<open>isFetchingCreateProfile\<close> are the objects of the two
  fetch stores, indexed by the parameters of the request (\<^verbatim>\<open>{ propertyID }\<close> and
  \<^verbatim>\<open>{ propertyID, profileName }\<close>); \<open>requestError\<close> is the error a failed request
  leaves in the store; \<open>profileID\<close> is the selected profile ID of the module settings.
\<close>

record base_state =
  profiles :: "(string \<times> profile list) list"

record state = base_state +
  isFetchingGetProfiles :: "(string \<times> bool) list"
  isFetchingCreateProfile :: "((string \<times> string) \<times> bool) list"
  requestError :: "apierror option"
  profileID :: "string option"

text \<open>The store together with the log of the network calls issued so far, oldest first.\<close>

record world =
  store :: state
  requests :: "request list"

text \<open>The \<^verbatim>\<open>{ response, error }\<close> object a fetch action returns.\<close>

record 'r fetch_result =
  response :: "'r option"
  error :: "apierror option"

subsection \<open>fetchGetProfilesStore\<close>

definition fetchGetProfilesStore_controlCallback :: "util \<Rightarrow> string \<Rightarrow> request" where
  "fetchGetProfilesStore_controlCallback u propertyID =
     (let accountID = parsePropertyID u propertyID
      in API_get ''modules'' ''analytics'' ''profiles''
           [(''accountID'', accountID), (''propertyID'', propertyID)] False)"

definition fetchGetProfilesStore_reducerCallback ::
    "state \<Rightarrow> profile list \<Rightarrow> string \<Rightarrow> state" where
  "fetchGetProfilesStore_reducerCallback s ps propertyID =
     s\<lparr>profiles := AList.update propertyID ps (profiles s)\<rparr>"

definition fetchGetProfilesStore_argsToParams :: "util \<Rightarrow> string \<Rightarrow> js_error + string" where
  "fetchGetProfilesStore_argsToParams u propertyID =
     (if isValidPropertyID u propertyID then Inr propertyID
      else Inl (Invariant ''a valid property ID is required to fetch profiles for.''))"

subsection \<open>fetchCreateProfileStore\<close>

definition fetchCreateProfileStore_controlCallback :: "util \<Rightarrow> string \<times> string \<Rightarrow> request" where
  "fetchCreateProfileStore_controlCallback u params =
     (case params of (propertyID, profileName) \<Rightarrow>
        let accountID = parsePropertyID u propertyID
        in API_set ''modules'' ''analytics'' ''create-profile''
             [(''accountID'', accountID), (''propertyID'', propertyID),
              (''profileName'', profileName)])"

definition fetchCreateProfileStore_reducerCallback :: "state \<Rightarrow> profile \<Rightarrow> string \<Rightarrow> state" where
  "fetchCreateProfileStore_reducerCallback s p propertyID =
     s\<lparr>profiles :=
         AList.update propertyID
           ((case map_of (profiles s) propertyID of None \<Rightarrow> [] | Some ps \<Rightarrow> ps) @ [p])
           (profiles s)\<rparr>"

definition fetchCreateProfileStore_argsToParams ::
    "util \<Rightarrow> string \<Rightarrow> string \<Rightarrow> js_error + string \<times> string" where
  "fetchCreateProfileStore_argsToParams u propertyID profileName =
     (if \<not> isValidPropertyID u propertyID
        then Inl (Invariant ''a valid property ID is required to create a profile.'')
      else if \<not> isValidProfileName u profileName
        then Inl (Invariant ''a valid name is required to create a profile.'')
      else Inr (propertyID, profileName))"

subsection \<open>Initial state and selectors\<close>

definition BASE_INITIAL_STATE :: base_state where
  "BASE_INITIAL_STATE = \<lparr>profiles = []\<rparr>"

text \<open>
  The names a plain object inherits from \<^verbatim>\<open>Object.prototype\<close>. For such a name that
  is not an own property, \<^verbatim>\<open>o[k]\<close> is the inherited member and not \<^verbatim>\<open>undefined\<close>;
  a property ID read before anything is stored under it must not be one of them for
  the lookup below to be what the source computes.
\<close>

definition Object_prototype_members :: "string list" where
  "Object_prototype_members =
     [''constructor'', ''__defineGetter__'', ''__defineSetter__'', ''hasOwnProperty'',
      ''__lookupGetter__'', ''__lookupSetter__'', ''isPrototypeOf'',
      ''propertyIsEnumerable'', ''toString'', ''valueOf'', ''__proto__'',
      ''toLocaleString'']"

text \<open>
  \<^verbatim>\<open>state.profiles[ propertyID ]\<close>: the list stored under the property ID, and
  \<^verbatim>\<open>undefined\<close> when none is stored and the property ID is not one of
  \<open>Object_prototype_members\<close>.
\<close>

definition baseSelectors_getProfiles :: "state \<Rightarrow> string \<Rightarrow> profile list option" where
  "baseSelectors_getProfiles s propertyID = map_of (profiles s) propertyID"

definition baseSelectors_isDoingCreateProfile :: "state \<Rightarrow> bool" where
  "baseSelectors_isDoingCreateProfile s = list_ex (\<lambda>v. v) (map snd (isFetchingCreateProfile s))"

subsection \<open>The fetch stores\<close>

text \<open>
  Modelled from the spec: \<^verbatim>\<open>createFetchStore\<close>
  (\<^verbatim>\<open>googlesitekit/data/create-fetch-store\<close>) and \<^verbatim>\<open>Data.combineStores\<close> are not
  among the sources. The combined initial state has the fields of
  \<open>BASE_INITIAL_STATE\<close>, an empty "is fetching" object for each fetch store, no request
  error and no selected profile.
\<close>

definition INITIAL_STATE :: state where
  "INITIAL_STATE =
     \<lparr>profiles = profiles BASE_INITIAL_STATE, isFetchingGetProfiles = [],
      isFetchingCreateProfile = [], requestError = None, profileID = None\<rparr>"

text \<open>
  Modelled from the spec: the store at start-up, before any network call (the cache is
  empty after a reset of the state).
\<close>

definition INITIAL_WORLD :: world where
  "INITIAL_WORLD = \<lparr>store = INITIAL_STATE, requests = []\<rparr>"

text \<open>
  Modelled from the spec: a request for a key is pending (status "fetching") when the
  fetch store's object holds \<^verbatim>\<open>true\<close> for its parameters.
\<close>

definition isPending :: "('k \<times> bool) list \<Rightarrow> 'k \<Rightarrow> bool" where
  "isPending flags params = (map_of flags params = Some True)"

text \<open>
  A generator runs up to the point where it waits for the network; there it is suspended
  and other operations may run. The first part of a fetch action ends in one of three
  ways: the arguments are rejected (\<open>Throws\<close>), a network call has been issued
  (\<open>Issued\<close>), or a call for the same parameters was pending already and the caller
  waits for that one (\<open>Joined\<close>).
\<close>

datatype fetch_begin = Throws js_error world | Issued world | Joined world

text \<open>
  Modelled from the spec: the action \<^verbatim>\<open>fetchGetProfiles\<close> of \<^verbatim>\<open>createFetchStore\<close>
  is missing. Validation errors are thrown before any network call (section 7); a call
  already pending for the key is not duplicated (section 4.3); otherwise the key is marked
  fetching and the control callback issues the request (section 4.2).
\<close>

definition fetchGetProfiles :: "util \<Rightarrow> string \<Rightarrow> world \<Rightarrow> fetch_begin" where
  "fetchGetProfiles u propertyID w =
     (case fetchGetProfilesStore_argsToParams u propertyID of
        Inl e \<Rightarrow> Throws e w
      | Inr params \<Rightarrow>
          if isPending (isFetchingGetProfiles (store w)) params then Joined w
          else Issued
            (w\<lparr>store := (store w)\<lparr>isFetchingGetProfiles :=
                           AList.update params True (isFetchingGetProfiles (store w))\<rparr>,
               requests := requests w @ [fetchGetProfilesStore_controlCallback u params]\<rparr>))"

text \<open>
  Modelled from the spec: the second part of \<^verbatim>\<open>fetchGetProfiles\<close>, when the network
  has answered. A response is handed to the reducer callback; an error is stored and
  the cached value is not touched; in both cases the pending slot clears.
\<close>

definition fetchGetProfiles_settle ::
    "string \<Rightarrow> apierror + profile list \<Rightarrow> world \<Rightarrow> world" where
  "fetchGetProfiles_settle params outcome w =
     (let s = (case outcome of
                 Inr ps \<Rightarrow> fetchGetProfilesStore_reducerCallback (store w) ps params
               | Inl e \<Rightarrow> (store w)\<lparr>requestError := Some e\<rparr>)
      in w\<lparr>store := s\<lparr>isFetchingGetProfiles :=
                         AList.update params False (isFetchingGetProfiles s)\<rparr>\<rparr>)"

text \<open>
  Modelled from the spec: the value a fetch action returns for an outcome of the
  network, \<^verbatim>\<open>{ response, error }\<close> with exactly one of the two defined.
\<close>

definition fetch_return :: "apierror + 'r \<Rightarrow> 'r fetch_result" where
  "fetch_return outcome =
     (case outcome of
        Inr r \<Rightarrow> \<lparr>response = Some r, error = None\<rparr>
      | Inl e \<Rightarrow> \<lparr>response = None, error = Some e\<rparr>)"

text \<open>
  Modelled from the spec: the action \<^verbatim>\<open>fetchCreateProfile\<close> of \<^verbatim>\<open>createFetchStore\<close>,
  in the same two parts.
\<close>

definition fetchCreateProfile :: "util \<Rightarrow> string \<Rightarrow> string \<Rightarrow> world \<Rightarrow> fetch_begin" where
  "fetchCreateProfile u propertyID profileName w =
     (case fetchCreateProfileStore_argsToParams u propertyID profileName of
        Inl e \<Rightarrow> Throws e w
      | Inr params \<Rightarrow>
          if isPending (isFetchingCreateProfile (store w)) params then Joined w
          else Issued
            (w\<lparr>store := (store w)\<lparr>isFetchingCreateProfile :=
                           AList.update params True (isFetchingCreateProfile (store w))\<rparr>,
               requests := requests w @ [fetchCreateProfileStore_controlCallback u params]\<rparr>))"

text \<open>
  Modelled from the spec: the second part of \<^verbatim>\<open>fetchCreateProfile\<close>, when the
  network has answered. On success the new profile is merged into the cache by the
  reducer callback; on failure the error is stored and the cache is not changed
  (section 4.4); in both cases the pending slot clears.
\<close>

definition fetchCreateProfile_settle ::
    "string \<times> string \<Rightarrow> apierror + profile \<Rightarrow> world \<Rightarrow> world" where
  "fetchCreateProfile_settle params outcome w =
     (let s = (case outcome of
                 Inr p \<Rightarrow> fetchCreateProfileStore_reducerCallback (store w) p (fst params)
               | Inl e \<Rightarrow> (store w)\<lparr>requestError := Some e\<rparr>)
      in w\<lparr>store := s\<lparr>isFetchingCreateProfile :=
                         AList.update params False (isFetchingCreateProfile s)\<rparr>\<rparr>)"

text \<open>
  Modelled from the spec: the selector \<^verbatim>\<open>isFetchingGetProfiles\<close> of the fetch store
  is missing; it tells whether a request for the key is pending.
\<close>

definition selectors_isFetchingGetProfiles :: "state \<Rightarrow> string \<Rightarrow> bool" where
  "selectors_isFetchingGetProfiles s propertyID = isPending (isFetchingGetProfiles s) propertyID"

text \<open>
  Modelled from the spec: the error selector \<^verbatim>\<open>getError\<close> is missing; it returns the
  error payload a failed request left in the store (section 7).
\<close>

definition getError :: "state \<Rightarrow> apierror option" where
  "getError s = requestError s"

text \<open>
  Modelled from the spec: the selector \<^verbatim>\<open>getProfileID\<close> belongs to the settings of
  the module, which are not among the sources; it reads the selected profile ID.
\<close>

definition getProfileID :: "state \<Rightarrow> string option" where
  "getProfileID s = profileID s"

text \<open>
  Modelled from the spec: the action \<^verbatim>\<open>setProfileID\<close> of the same settings is
  missing; it writes the selected profile ID.
\<close>

definition setProfileID :: "string \<Rightarrow> state \<Rightarrow> state" where
  "setProfileID v s = s\<lparr>profileID := Some v\<rparr>"

subsection \<open>Actions, resolvers and the remaining selector\<close>

definition baseActions_createProfile :: "util \<Rightarrow> string \<Rightarrow> string \<Rightarrow> world \<Rightarrow> fetch_begin" where
  "baseActions_createProfile u propertyID profileName w =
     (if \<not> isValidPropertyID u propertyID
        then Throws (Invariant ''a valid property ID is required to create a profile.'') w
      else if \<not> isValidProfileName u profileName
        then Throws (Invariant ''a valid name is required to create a profile.'') w
      else fetchCreateProfile u propertyID profileName w)"

text \<open>What \<^verbatim>\<open>createProfile\<close> returns once the fetch action has returned \<open>r\<close>.\<close>

definition baseActions_createProfile_return :: "profile fetch_result \<Rightarrow> profile fetch_result" where
  "baseActions_createProfile_return r = \<lparr>response = response r, error = error r\<rparr>"

text \<open>JavaScript truthiness of an optional string: \<^verbatim>\<open>undefined\<close> and \<^verbatim>\<open>''\<close> are falsy.\<close>

definition truthy :: "string option \<Rightarrow> bool" where
  "truthy v = (case v of None \<Rightarrow> False | Some s \<Rightarrow> s \<noteq> [])"

text \<open>
  The end of the resolver, from \<^verbatim>\<open>const profileID = ...\<close> on, for the value that
  \<^verbatim>\<open>profiles\<close> has there. An array is truthy, also when it is empty.
\<close>

definition baseResolvers_getProfiles_select ::
    "util \<Rightarrow> profile list option \<Rightarrow> world \<Rightarrow> world" where
  "baseResolvers_getProfiles_select u profs w =
     (let pid = getProfileID (store w)
      in case profs of
           None \<Rightarrow> w
         | Some ps \<Rightarrow>
             if truthy pid then w
             else let i = (case ps of [] \<Rightarrow> PROFILE_CREATE u | p # _ \<Rightarrow> profile_id p)
                  in w\<lparr>store := setProfileID i (store w)\<rparr>)"

text \<open>
  The resolver up to the point where it returns or waits for \<^verbatim>\<open>fetchGetProfiles\<close>.
\<close>

datatype resolver_step = Returned world | Awaiting world | Raised js_error world

definition baseResolvers_getProfiles :: "util \<Rightarrow> string \<Rightarrow> world \<Rightarrow> resolver_step" where
  "baseResolvers_getProfiles u propertyID w =
     (if \<not> isValidPropertyID u propertyID then Returned w
      else case baseSelectors_getProfiles (store w) propertyID of
             None \<Rightarrow>
               (case fetchGetProfiles u propertyID w of
                  Throws e w' \<Rightarrow> Raised e w'
                | Issued w' \<Rightarrow> Awaiting w'
                | Joined w' \<Rightarrow> Awaiting w')
           | Some ps \<Rightarrow> Returned (baseResolvers_getProfiles_select u (Some ps) w))"

text \<open>The resolver from the point where the fetch action has returned \<open>r\<close>.\<close>

definition baseResolvers_getProfiles_resume ::
    "util \<Rightarrow> profile list fetch_result \<Rightarrow> world \<Rightarrow> world" where
  "baseResolvers_getProfiles_resume u r w = baseResolvers_getProfiles_select u (response r) w"

definition baseSelectors_isDoingGetProfiles :: "state \<Rightarrow> string \<Rightarrow> bool" where
  "baseSelectors_isDoingGetProfiles s propertyID = selectors_isFetchingGetProfiles s propertyID"

subsection \<open>Operations on the store\<close>

text \<open>
  The operations a caller or the network can perform on the store, each atomic between
  two suspension points: a read access that runs the resolver, up to its return or its
  wait (\<open>Resolve\<close>),
  the rest of a resolver that waited (\<open>ResolveResume\<close>), a direct dispatch of the fetch
  action (\<open>Fetch\<close>), the answer of the network to a profiles request
  (\<open>FetchSettled\<close>), a call of \<^verbatim>\<open>createProfile\<close> up to its wait (\<open>Create\<close>) and
  the answer of the network to it (\<open>CreateSettled\<close>).
\<close>

datatype op =
  Resolve string
| ResolveResume "profile list fetch_result"
| Fetch string
| FetchSettled string "apierror + profile list"
| Create string string
| CreateSettled "string \<times> string" "apierror + profile"

fun fetch_begin_world :: "fetch_begin \<Rightarrow> world" where
  "fetch_begin_world (Throws e w) = w"
| "fetch_begin_world (Issued w) = w"
| "fetch_begin_world (Joined w) = w"

fun resolver_step_world :: "resolver_step \<Rightarrow> world" where
  "resolver_step_world (Returned w) = w"
| "resolver_step_world (Awaiting w) = w"
| "resolver_step_world (Raised e w) = w"

fun exec :: "util \<Rightarrow> world \<Rightarrow> op \<Rightarrow> world" where
  "exec u w (Resolve k) = resolver_step_world (baseResolvers_getProfiles u k w)"
| "exec u w (ResolveResume r) = baseResolvers_getProfiles_resume u r w"
| "exec u w (Fetch k) = fetch_begin_world (fetchGetProfiles u k w)"
| "exec u w (FetchSettled k outcome) = fetchGetProfiles_settle k outcome w"
| "exec u w (Create k n) = fetch_begin_world (baseActions_createProfile u k n w)"
| "exec u w (CreateSettled params outcome) = fetchCreateProfile_settle params outcome w"

text \<open>The property ID an operation names, if any.\<close>

fun op_propertyID :: "op \<Rightarrow> string option" where
  "op_propertyID (Resolve k) = Some k"
| "op_propertyID (ResolveResume r) = None"
| "op_propertyID (Fetch k) = Some k"
| "op_propertyID (FetchSettled k outcome) = Some k"
| "op_propertyID (Create k n) = Some k"
| "op_propertyID (CreateSettled params outcome) = Some (fst params)"

text \<open>The property ID a network call is about: the \<^verbatim>\<open>propertyID\<close> of its data.\<close>

fun request_propertyID :: "request \<Rightarrow> string option" where
  "request_propertyID (API_get t i d xs c) = map_of xs ''propertyID''"
| "request_propertyID (API_set t i d xs) = map_of xs ''propertyID''"

text \<open>The four statuses of a cache entry (section 3 of the spec).\<close>

datatype entry_status = Unfetched | Fetching | Fetched | Errored

text \<open>
  Modelled from the spec: the status of a cache entry is not a field of the store; it is
  read off the store for the profiles of a property ID. The entry is fetching while its
  slot is pending; otherwise fetched when a value is cached; otherwise errored when a
  fetch for it has settled (the slot exists and is cleared) and left no value; otherwise
  unfetched.
\<close>

definition entry_status_of :: "state \<Rightarrow> string \<Rightarrow> entry_status" where
  "entry_status_of s k =
     (if isPending (isFetchingGetProfiles s) k then Fetching
      else case baseSelectors_getProfiles s k of
             Some ps \<Rightarrow> Fetched
           | None \<Rightarrow>
               (case map_of (isFetchingGetProfiles s) k of
                  Some b \<Rightarrow> Errored
                | None \<Rightarrow> Unfetched))"

text \<open>The position of a status in the order unfetched, fetching, fetched or errored.\<close>

fun status_rank :: "entry_status \<Rightarrow> nat" where
  "status_rank Unfetched = 0"
| "status_rank Fetching = 1"
| "status_rank Fetched = 2"
| "status_rank Errored = 2"

subsection \<open>Sample values\<close>

text \<open>
  Concrete values at which the theorems below are instantiated: validators that accept
  property IDs starting with \<^verbatim>\<open>UA-\<close> and non-empty names, a profile, and the error
  payload of the tests.
\<close>

definition sample_util :: util where
  "sample_util =
     \<lparr>isValidPropertyID = (\<lambda>p. take 3 p = ''UA-''),
      isValidProfileName = (\<lambda>n. n \<noteq> []),
      parsePropertyID = (\<lambda>p. takeWhile (\<lambda>c. c \<noteq> CHR ''-'') (drop 3 p)),
      PROFILE_CREATE = ''profile_create''\<rparr>"

definition sample_profile :: profile where
  "sample_profile = \<lparr>profile_id = ''987'', profile_name = ''All Web Site Data''\<rparr>"

definition sample_error :: apierror where
  "sample_error =
     \<lparr>code = ''internal_server_error'', message = ''Internal server error'', status = 500\<rparr>"

section \<open>Properties\<close>

subsection \<open>Auxiliary facts\<close>

lemmas model_defs =
  baseResolvers_getProfiles_def baseResolvers_getProfiles_select_def
  baseResolvers_getProfiles_resume_def fetchGetProfiles_def fetchGetProfiles_settle_def
  fetchCreateProfile_def fetchCreateProfile_settle_def baseActions_createProfile_def
  fetchGetProfilesStore_argsToParams_def fetchCreateProfileStore_argsToParams_def
  fetchGetProfilesStore_reducerCallback_def fetchCreateProfileStore_reducerCallback_def
  fetchGetProfilesStore_controlCallback_def fetchCreateProfileStore_controlCallback_def
  baseSelectors_getProfiles_def setProfileID_def getProfileID_def getError_def

lemmas sample_defs =
  sample_util_def sample_profile_def sample_error_def INITIAL_WORLD_def INITIAL_STATE_def
  BASE_INITIAL_STATE_def

lemma isDoingGetProfiles_pending:
  "baseSelectors_isDoingGetProfiles s k = isPending (isFetchingGetProfiles s) k"
  by (simp add: baseSelectors_isDoingGetProfiles_def selectors_isFetchingGetProfiles_def)

text \<open>An operation that does not name a property ID leaves its cached list alone.\<close>

lemma exec_getProfiles_other:
  assumes "op_propertyID op \<noteq> Some k"
  shows "baseSelectors_getProfiles (store (exec u w op)) k = baseSelectors_getProfiles (store w) k"
  using assms
  by (cases op)
     (auto simp: model_defs update_conv' Let_def split: option.splits sum.splits list.splits)

text \<open>An operation that does not name a property ID issues no network call about it.\<close>

lemma exec_requests_other:
  assumes "op_propertyID op \<noteq> Some k"
      and "\<forall>r \<in> set (requests w). request_propertyID r \<noteq> Some k"
  shows "\<forall>r \<in> set (requests (exec u w op)). request_propertyID r \<noteq> Some k"
  using assms
  by (cases op)
     (auto simp: model_defs update_conv' Let_def split: option.splits sum.splits list.splits)

lemma foldl_exec_other:
  assumes "\<forall>op \<in> set ops. op_propertyID op \<noteq> Some k"
      and "\<forall>r \<in> set (requests w). request_propertyID r \<noteq> Some k"
  shows "baseSelectors_getProfiles (store (foldl (exec u) w ops)) k
           = baseSelectors_getProfiles (store w) k \<and>
         (\<forall>r \<in> set (requests (foldl (exec u) w ops)). request_propertyID r \<noteq> Some k)"
  using assms
proof (induction ops arbitrary: w)
  case Nil
  then show ?case by simp
next
  case (Cons op ops)
  have a: "op_propertyID op \<noteq> Some k" using Cons.prems(1) by simp
  have b: "\<forall>r \<in> set (requests (exec u w op)). request_propertyID r \<noteq> Some k"
    using exec_requests_other [OF a Cons.prems(2)] .
  have c: "\<forall>op \<in> set ops. op_propertyID op \<noteq> Some k" using Cons.prems(1) by simp
  show ?case using Cons.IH [OF c b] exec_getProfiles_other [OF a, of u w] by simp
qed

text \<open>
  A run of the resolver for a key that is cached or pending issues no call, and the key
  is cached or pending afterwards.
\<close>

lemma read_quiet:
  assumes "baseSelectors_getProfiles (store w) k \<noteq> None \<or>
           isPending (isFetchingGetProfiles (store w)) k"
  shows "requests (exec u w (Resolve k)) = requests w \<and>
         (baseSelectors_getProfiles (store (exec u w (Resolve k))) k \<noteq> None \<or>
          isPending (isFetchingGetProfiles (store (exec u w (Resolve k)))) k)"
  using assms
  by (auto simp: model_defs Let_def split: option.splits list.splits)

lemma reads_quiet:
  assumes "baseSelectors_getProfiles (store w) k \<noteq> None \<or>
           isPending (isFetchingGetProfiles (store w)) k"
  shows "requests (foldl (exec u) w (replicate n (Resolve k))) = requests w"
  using assms
proof (induction n arbitrary: w)
  case 0
  then show ?case by simp
next
  case (Suc n)
  from read_quiet [OF Suc.prems, of u]
  have r: "requests (exec u w (Resolve k)) = requests w"
    and q: "baseSelectors_getProfiles (store (exec u w (Resolve k))) k \<noteq> None \<or>
          isPending (isFetchingGetProfiles (store (exec u w (Resolve k)))) k"
    by blast+
  show ?case using Suc.IH [OF q] r by simp
qed

text \<open>
  A run of the resolver for a key that is neither cached nor pending either changes
  nothing (the key is invalid) or issues one call and leaves the key pending.
\<close>

lemma read_first:
  "exec u w (Resolve k) = w \<or>
   baseSelectors_getProfiles (store w) k \<noteq> None \<or>
   isPending (isFetchingGetProfiles (store w)) k \<or>
   (requests (exec u w (Resolve k)) = requests w @ [fetchGetProfilesStore_controlCallback u k] \<and>
    isPending (isFetchingGetProfiles (store (exec u w (Resolve k)))) k)"
  by (auto simp: baseResolvers_getProfiles_def fetchGetProfiles_def
      fetchGetProfilesStore_argsToParams_def isPending_def update_conv' split: option.splits)

lemma reads_same:
  "exec u w (Resolve k) = w \<Longrightarrow> foldl (exec u) w (replicate n (Resolve k)) = w"
  by (induction n) simp_all

lemma list_ex_values:
  "list_ex (\<lambda>v. v) (map snd xs) \<longleftrightarrow> (\<exists>k. (k, True) \<in> set xs)"
  by (induction xs) auto

text \<open>The keys of the object of the create store stay distinct, as those of an object are.\<close>

lemma exec_keys_distinct:
  assumes "distinct (map fst (isFetchingCreateProfile (store w)))"
  shows "distinct (map fst (isFetchingCreateProfile (store (exec u w op))))"
  using assms
  by (cases op)
     (auto simp: model_defs distinct_update Let_def split: option.splits sum.splits list.splits)

lemma reachable_keys_distinct:
  "distinct (map fst (isFetchingCreateProfile (store (foldl (exec u) INITIAL_WORLD ops))))"
proof -
  have "distinct (map fst (isFetchingCreateProfile (store w))) \<Longrightarrow>
        distinct (map fst (isFetchingCreateProfile (store (foldl (exec u) w ops))))" for w
    by (induction ops arbitrary: w) (simp_all add: exec_keys_distinct)
  then show ?thesis by (simp add: INITIAL_WORLD_def INITIAL_STATE_def)
qed

subsection \<open>Reading a key that was never read\<close>

text \<open>
  C1, as amended. In the initial state the store maps no property ID to a profiles list,
  and no network call has been issued. For a property ID that is not the name of a
  member of \<^verbatim>\<open>Object.prototype\<close> this stays so as long as no operation names it,
  neither a read (a run of the resolver) nor a fetch nor a profile creation for it: the
  selector \<open>getProfiles\<close> returns \<^verbatim>\<open>undefined\<close> for it and the log of the network
  holds no call about it.
\<close>

theorem untouched_key_is_unfetched:
  assumes "k \<notin> set Object_prototype_members"
      and "\<forall>op \<in> set ops. op_propertyID op \<noteq> Some k"
  shows "map_of (profiles BASE_INITIAL_STATE) k = None \<and>
         requests INITIAL_WORLD = [] \<and>
         baseSelectors_getProfiles (store (foldl (exec u) INITIAL_WORLD ops)) k = None \<and>
         (\<forall>r \<in> set (requests (foldl (exec u) INITIAL_WORLD ops)).
            request_propertyID r \<noteq> Some k)"
  using foldl_exec_other [OF assms(2), of INITIAL_WORLD u]
  by (simp add: INITIAL_WORLD_def INITIAL_STATE_def BASE_INITIAL_STATE_def
      baseSelectors_getProfiles_def)

theorem untouched_key_is_unfetched_witness:
  "''UA-2-1'' \<notin> set Object_prototype_members \<and>
   op_propertyID (Resolve ''UA-1-1'') \<noteq> Some ''UA-2-1'' \<and>
   op_propertyID (FetchSettled ''UA-1-1'' (Inr [sample_profile])) \<noteq> Some ''UA-2-1'' \<and>
   baseSelectors_getProfiles
     (store (foldl (exec sample_util) INITIAL_WORLD
        [Resolve ''UA-1-1'', FetchSettled ''UA-1-1'' (Inr [sample_profile])])) ''UA-2-1'' = None \<and>
   baseSelectors_getProfiles
     (store (foldl (exec sample_util) INITIAL_WORLD
        [Resolve ''UA-1-1'', FetchSettled ''UA-1-1'' (Inr [sample_profile])])) ''UA-1-1''
     = Some [sample_profile]"
proof -
  have m: "''UA-2-1'' \<notin> set Object_prototype_members"
    by (simp add: Object_prototype_members_def)
  have h: "\<forall>op \<in> set [Resolve ''UA-1-1'', FetchSettled ''UA-1-1'' (Inr [sample_profile])].
      op_propertyID op \<noteq> Some ''UA-2-1''" by simp
  have c: "baseSelectors_getProfiles
     (store (foldl (exec sample_util) INITIAL_WORLD
        [Resolve ''UA-1-1'', FetchSettled ''UA-1-1'' (Inr [sample_profile])])) ''UA-1-1''
     = Some [sample_profile]"
    by (simp add: sample_defs model_defs isPending_def)
  show ?thesis using m h c untouched_key_is_unfetched [OF m h, of sample_util] by simp
qed

text \<open>
  The claim as stated fails: a property ID that was never read has a cached list, and a
  network call about it has been issued, once a profile was created for it. The reducer
  of the create store puts the new profile under the property ID in the initial state,
  and so does the whole call of \<open>createProfile\<close> answered with success, in which no
  operation reads the key.
\<close>

theorem created_key_is_cached_unread:
  "baseSelectors_getProfiles
     (fetchCreateProfileStore_reducerCallback INITIAL_STATE sample_profile ''UA-1-1'')
     ''UA-1-1'' = Some [sample_profile] \<and>
   baseSelectors_getProfiles
     (store (foldl (exec sample_util) INITIAL_WORLD
        [Create ''UA-1-1'' ''Main'',
         CreateSettled (''UA-1-1'', ''Main'') (Inr sample_profile)])) ''UA-1-1''
     = Some [sample_profile] \<and>
   requests (foldl (exec sample_util) INITIAL_WORLD
        [Create ''UA-1-1'' ''Main'',
         CreateSettled (''UA-1-1'', ''Main'') (Inr sample_profile)])
     = [API_set ''modules'' ''analytics'' ''create-profile''
          [(''accountID'', ''1''), (''propertyID'', ''UA-1-1''), (''profileName'', ''Main'')]] \<and>
   request_propertyID
     (API_set ''modules'' ''analytics'' ''create-profile''
        [(''accountID'', ''1''), (''propertyID'', ''UA-1-1''), (''profileName'', ''Main'')])
     = Some ''UA-1-1''"
  by (simp add: sample_defs model_defs isPending_def)

subsection \<open>Invalid parameters\<close>

text \<open>
  C2, as amended. \<open>createProfile\<close> throws a validation error, before any change of
  the store and before any network call, when the property ID is not valid or, the
  property ID being valid, the profile name is not valid; the \<open>argsToParams\<close> of the
  two fetch stores reject the same arguments. The resolver \<open>getProfiles\<close> called with
  a property ID that is not valid raises nothing: it returns at once, without fetching
  and without changing the store.
\<close>

theorem invalid_parameters_rejected:
  "(\<not> isValidPropertyID u k \<longrightarrow>
      baseActions_createProfile u k n w =
        Throws (Invariant ''a valid property ID is required to create a profile.'') w) \<and>
   (isValidPropertyID u k \<and> \<not> isValidProfileName u n \<longrightarrow>
      baseActions_createProfile u k n w =
        Throws (Invariant ''a valid name is required to create a profile.'') w) \<and>
   (\<not> isValidPropertyID u k \<longrightarrow>
      fetchGetProfilesStore_argsToParams u k =
        Inl (Invariant ''a valid property ID is required to fetch profiles for.'')) \<and>
   (\<not> isValidPropertyID u k \<or> \<not> isValidProfileName u n \<longrightarrow>
      (\<exists>e. fetchCreateProfileStore_argsToParams u k n = Inl e)) \<and>
   (\<not> isValidPropertyID u k \<longrightarrow> baseResolvers_getProfiles u k w = Returned w)"
  by (simp add: baseActions_createProfile_def baseResolvers_getProfiles_def
      fetchGetProfilesStore_argsToParams_def fetchCreateProfileStore_argsToParams_def)

theorem invalid_parameters_rejected_witness:
  "\<not> isValidPropertyID sample_util ''12345'' \<and>
   baseActions_createProfile sample_util ''12345'' ''Main'' INITIAL_WORLD =
     Throws (Invariant ''a valid property ID is required to create a profile.'') INITIAL_WORLD \<and>
   isValidPropertyID sample_util ''UA-1-1'' \<and> \<not> isValidProfileName sample_util [] \<and>
   baseActions_createProfile sample_util ''UA-1-1'' [] INITIAL_WORLD =
     Throws (Invariant ''a valid name is required to create a profile.'') INITIAL_WORLD \<and>
   fetchGetProfilesStore_argsToParams sample_util ''12345'' =
     Inl (Invariant ''a valid property ID is required to fetch profiles for.'') \<and>
   (\<exists>e. fetchCreateProfileStore_argsToParams sample_util ''UA-1-1'' [] = Inl e)"
proof -
  have h1: "\<not> isValidPropertyID sample_util ''12345''"
    by (simp add: sample_util_def)
  have h2: "isValidPropertyID sample_util ''UA-1-1'' \<and> \<not> isValidProfileName sample_util []"
    by (simp add: sample_util_def)
  show ?thesis
    using h1 h2
      invalid_parameters_rejected [of sample_util "''12345''" "''Main''" INITIAL_WORLD]
      invalid_parameters_rejected [of sample_util "''UA-1-1''" "[]" INITIAL_WORLD]
    by blast
qed

text \<open>
  The claim as stated fails: for the property ID \<^verbatim>\<open>12345\<close>, which is not valid, the
  resolver returns normally with the world unchanged instead of raising an error.
\<close>

theorem invalid_read_raises_nothing:
  "\<not> isValidPropertyID sample_util ''12345'' \<and>
   baseResolvers_getProfiles sample_util ''12345'' INITIAL_WORLD = Returned INITIAL_WORLD"
  by (simp add: sample_util_def baseResolvers_getProfiles_def)

subsection \<open>A successful fetch\<close>

text \<open>
  C3. The reducer of the profiles fetch store stores the received list unchanged under
  the requested property ID: the selector \<open>getProfiles\<close> returns exactly the response
  afterwards.
\<close>

theorem getProfiles_reducer_stores_response:
  "baseSelectors_getProfiles (fetchGetProfilesStore_reducerCallback s ps k) k = Some ps"
  by (simp add: fetchGetProfilesStore_reducerCallback_def baseSelectors_getProfiles_def
      update_conv')

subsection \<open>A failed fetch\<close>

text \<open>
  C4. When the resolver runs for a valid property ID that is neither cached nor pending
  and the network answers with an error, exactly one network call is issued, the cached
  value of the key is still \<^verbatim>\<open>undefined\<close> once the resolver has finished, and the error
  selector returns the payload of the failure.
\<close>

theorem failed_fetch_keeps_undefined:
  assumes "isValidPropertyID u k"
      and "baseSelectors_getProfiles (store w) k = None"
      and "\<not> baseSelectors_isDoingGetProfiles (store w) k"
  shows "\<exists>w1. baseResolvers_getProfiles u k w = Awaiting w1 \<and>
           requests w1 = requests w @ [fetchGetProfilesStore_controlCallback u k] \<and>
           (let w2 = baseResolvers_getProfiles_resume u (fetch_return (Inl e))
                       (fetchGetProfiles_settle k (Inl e) w1)
            in baseSelectors_getProfiles (store w2) k = None \<and>
               getError (store w2) = Some e \<and>
               requests w2 = requests w @ [fetchGetProfilesStore_controlCallback u k])"
  using assms
  by (simp add: isDoingGetProfiles_pending baseResolvers_getProfiles_def fetchGetProfiles_def
      fetchGetProfilesStore_argsToParams_def baseResolvers_getProfiles_resume_def
      baseResolvers_getProfiles_select_def fetch_return_def fetchGetProfiles_settle_def
      getError_def baseSelectors_getProfiles_def Let_def)

theorem failed_fetch_keeps_undefined_witness:
  "isValidPropertyID sample_util ''UA-1-1'' \<and>
   baseSelectors_getProfiles (store INITIAL_WORLD) ''UA-1-1'' = None \<and>
   \<not> baseSelectors_isDoingGetProfiles (store INITIAL_WORLD) ''UA-1-1'' \<and>
   (\<exists>w1. baseResolvers_getProfiles sample_util ''UA-1-1'' INITIAL_WORLD = Awaiting w1 \<and>
      requests w1 = [fetchGetProfilesStore_controlCallback sample_util ''UA-1-1''] \<and>
      (let w2 = baseResolvers_getProfiles_resume sample_util (fetch_return (Inl sample_error))
                  (fetchGetProfiles_settle ''UA-1-1'' (Inl sample_error) w1)
       in baseSelectors_getProfiles (store w2) ''UA-1-1'' = None \<and>
          getError (store w2) = Some sample_error \<and>
          requests w2 = [fetchGetProfilesStore_controlCallback sample_util ''UA-1-1'']))"
proof -
  have h1: "isValidPropertyID sample_util ''UA-1-1''"
    by (simp add: sample_util_def)
  have h2: "baseSelectors_getProfiles (store INITIAL_WORLD) ''UA-1-1'' = None"
    by (simp add: sample_defs baseSelectors_getProfiles_def)
  have h3: "\<not> baseSelectors_isDoingGetProfiles (store INITIAL_WORLD) ''UA-1-1''"
    by (simp add: sample_defs isDoingGetProfiles_pending isPending_def)
  have r: "requests INITIAL_WORLD = []"
    by (simp add: INITIAL_WORLD_def)
  show ?thesis
    using h1 h2 h3 failed_fetch_keeps_undefined [OF h1 h2 h3, of sample_error]
    by (simp add: r)
qed

subsection \<open>Repeated reads\<close>

text \<open>
  C5. Repeated read accesses to one property ID, each a run of the resolver, issue at
  most one network call between them, and they issue one only if the selector
  \<open>getProfiles\<close> returned \<^verbatim>\<open>undefined\<close> for the key at the start. When the value of
  the key is cached already, or a fetch for it is pending, they issue none.
\<close>

theorem repeated_reads_no_extra_calls:
  "(baseSelectors_getProfiles (store w) k \<noteq> None \<or>
    baseSelectors_isDoingGetProfiles (store w) k \<longrightarrow>
      requests (foldl (exec u) w (replicate n (Resolve k))) = requests w) \<and>
   (requests (foldl (exec u) w (replicate n (Resolve k))) = requests w \<or>
    baseSelectors_getProfiles (store w) k = None \<and>
    requests (foldl (exec u) w (replicate n (Resolve k))) =
      requests w @ [fetchGetProfilesStore_controlCallback u k])"
proof (cases "baseSelectors_getProfiles (store w) k \<noteq> None \<or>
              isPending (isFetchingGetProfiles (store w)) k")
  case True
  then show ?thesis
    using reads_quiet [OF True, of u n] by (simp add: isDoingGetProfiles_pending)
next
  case False
  show ?thesis
  proof (cases n)
    case 0
    then show ?thesis by simp
  next
    case (Suc m)
    consider (same) "exec u w (Resolve k) = w"
      | (issued)
          "requests (exec u w (Resolve k)) =
             requests w @ [fetchGetProfilesStore_controlCallback u k]"
          "isPending (isFetchingGetProfiles (store (exec u w (Resolve k)))) k"
      using read_first [of u w k] False by blast
    then show ?thesis
    proof cases
      case same
      then show ?thesis
        using reads_same [OF same, of n] False by (simp add: isDoingGetProfiles_pending)
    next
      case issued
      have "requests (foldl (exec u) (exec u w (Resolve k)) (replicate m (Resolve k)))
              = requests (exec u w (Resolve k))"
        using reads_quiet [of "exec u w (Resolve k)" k u m] issued(2) by blast
      then show ?thesis
        using issued(1) Suc False by (simp add: isDoingGetProfiles_pending)
    qed
  qed
qed

theorem repeated_reads_no_extra_calls_witness:
  "baseSelectors_isDoingGetProfiles (store (exec sample_util INITIAL_WORLD (Resolve ''UA-1-1'')))
     ''UA-1-1'' \<and>
   requests (foldl (exec sample_util) (exec sample_util INITIAL_WORLD (Resolve ''UA-1-1''))
               (replicate 3 (Resolve ''UA-1-1''))) =
     requests (exec sample_util INITIAL_WORLD (Resolve ''UA-1-1'')) \<and>
   baseSelectors_getProfiles (store INITIAL_WORLD) ''UA-1-1'' = None \<and>
   requests (foldl (exec sample_util) INITIAL_WORLD (replicate 3 (Resolve ''UA-1-1''))) =
     [fetchGetProfilesStore_controlCallback sample_util ''UA-1-1'']"
proof -
  have h: "baseSelectors_isDoingGetProfiles
             (store (exec sample_util INITIAL_WORLD (Resolve ''UA-1-1''))) ''UA-1-1''"
    by (simp add: sample_defs model_defs isDoingGetProfiles_pending isPending_def)
  have a: "requests (foldl (exec sample_util) (exec sample_util INITIAL_WORLD (Resolve ''UA-1-1''))
               (replicate 3 (Resolve ''UA-1-1''))) =
     requests (exec sample_util INITIAL_WORLD (Resolve ''UA-1-1''))"
    using h repeated_reads_no_extra_calls
            [of "exec sample_util INITIAL_WORLD (Resolve ''UA-1-1'')" "''UA-1-1''" sample_util 3]
    by blast
  have b: "baseSelectors_getProfiles (store INITIAL_WORLD) ''UA-1-1'' = None"
    by (simp add: sample_defs baseSelectors_getProfiles_def)
  have c: "requests (exec sample_util INITIAL_WORLD (Resolve ''UA-1-1'')) =
           [fetchGetProfilesStore_controlCallback sample_util ''UA-1-1'']"
    by (simp add: sample_defs model_defs isPending_def)
  have d: "foldl (exec sample_util) INITIAL_WORLD (replicate 3 (Resolve ''UA-1-1'')) =
           foldl (exec sample_util) (exec sample_util INITIAL_WORLD (Resolve ''UA-1-1''))
             (replicate 2 (Resolve ''UA-1-1''))"
    by (simp add: numeral_3_eq_3 numeral_2_eq_2)
  have e: "requests (foldl (exec sample_util) (exec sample_util INITIAL_WORLD (Resolve ''UA-1-1''))
               (replicate 2 (Resolve ''UA-1-1''))) =
     requests (exec sample_util INITIAL_WORLD (Resolve ''UA-1-1''))"
    using h repeated_reads_no_extra_calls
            [of "exec sample_util INITIAL_WORLD (Resolve ''UA-1-1'')" "''UA-1-1''" sample_util 2]
    by blast
  show ?thesis using h a b c d e by simp
qed

subsection \<open>Creating a profile\<close>

text \<open>
  C6. The reducer of the create store appends the new profile to the end of the list
  cached for the parent property ID, taking the empty list when none was cached, and
  leaves the list of every other property ID as it was.
\<close>

theorem createProfile_reducer_appends:
  "baseSelectors_getProfiles (fetchCreateProfileStore_reducerCallback s p k) k =
     Some ((case baseSelectors_getProfiles s k of None \<Rightarrow> [] | Some ps \<Rightarrow> ps) @ [p]) \<and>
   (\<forall>k'. k' \<noteq> k \<longrightarrow>
      baseSelectors_getProfiles (fetchCreateProfileStore_reducerCallback s p k) k' =
      baseSelectors_getProfiles s k')"
  by (simp add: fetchCreateProfileStore_reducerCallback_def
      baseSelectors_getProfiles_def update_conv')

theorem createProfile_reducer_appends_witness:
  "''UA-2-1'' \<noteq> ''UA-1-1'' \<and>
   baseSelectors_getProfiles
     (fetchCreateProfileStore_reducerCallback INITIAL_STATE sample_profile ''UA-1-1'')
     ''UA-1-1'' = Some [sample_profile] \<and>
   baseSelectors_getProfiles
     (fetchCreateProfileStore_reducerCallback INITIAL_STATE sample_profile ''UA-1-1'')
     ''UA-2-1'' = baseSelectors_getProfiles INITIAL_STATE ''UA-2-1''"
proof -
  have h: "''UA-2-1'' \<noteq> ''UA-1-1''" by simp
  have n: "baseSelectors_getProfiles INITIAL_STATE ''UA-1-1'' = None"
    by (simp add: sample_defs baseSelectors_getProfiles_def)
  show ?thesis
    using h n createProfile_reducer_appends [of INITIAL_STATE sample_profile "''UA-1-1''"]
    by simp
qed

text \<open>
  C7. A call of \<open>createProfile\<close> with valid arguments does not throw; when the network
  answers it with an error, the cached profiles are the same for every key as before the
  call, and the action returns the error, with no response, in its result.
\<close>

theorem createProfile_failure_keeps_cache:
  assumes "isValidPropertyID u k" and "isValidProfileName u n"
  shows "(\<forall>x w'. baseActions_createProfile u k n w \<noteq> Throws x w') \<and>
         (let w1 = fetch_begin_world (baseActions_createProfile u k n w);
              w2 = fetchCreateProfile_settle (k, n) (Inl e) w1
          in profiles (store w2) = profiles (store w) \<and>
             (\<forall>k'. baseSelectors_getProfiles (store w2) k' =
                    baseSelectors_getProfiles (store w) k') \<and>
             baseActions_createProfile_return (fetch_return (Inl e)) =
               \<lparr>response = None, error = Some e\<rparr>)"
  using assms
  by (simp add: baseActions_createProfile_def fetchCreateProfile_def
      fetchCreateProfileStore_argsToParams_def fetchCreateProfile_settle_def
      baseActions_createProfile_return_def fetch_return_def baseSelectors_getProfiles_def
      Let_def)

theorem createProfile_failure_keeps_cache_witness:
  "isValidPropertyID sample_util ''UA-1-1'' \<and> isValidProfileName sample_util ''Main'' \<and>
   profiles (store (fetchCreateProfile_settle (''UA-1-1'', ''Main'') (Inl sample_error)
      (fetch_begin_world
         (baseActions_createProfile sample_util ''UA-1-1'' ''Main'' INITIAL_WORLD)))) = [] \<and>
   baseActions_createProfile_return (fetch_return (Inl sample_error)) =
     \<lparr>response = None, error = Some sample_error\<rparr>"
proof -
  have h1: "isValidPropertyID sample_util ''UA-1-1''"
    by (simp add: sample_util_def)
  have h2: "isValidProfileName sample_util ''Main''"
    by (simp add: sample_util_def)
  have p: "profiles (store INITIAL_WORLD) = []"
    by (simp add: sample_defs)
  show ?thesis
    using h1 h2 p
      createProfile_failure_keeps_cache [OF h1 h2, of INITIAL_WORLD sample_error]
    by (simp add: Let_def)
qed

subsection \<open>The status of a cache entry\<close>

text \<open>
  C8. For every state of the store and every operation, the status of the entry of a
  property ID does not move backwards along unfetched, fetching, fetched or errored, and
  does not become fetching, unless the operation is an explicit request to fetch that
  property ID: a dispatch of the fetch action for it, or a run of its resolver while the
  entry has no value (the first read, or the resolver invoked again after a failure).
  A fetched entry stays fetched under every operation but a dispatch of the fetch action
  for it.
\<close>

theorem entry_status_moves_forward:
  "(status_rank (entry_status_of (store (exec u w op)) k)
      < status_rank (entry_status_of (store w) k) \<longrightarrow>
      op = Fetch k \<or> (op = Resolve k \<and> entry_status_of (store w) k = Errored)) \<and>
   (entry_status_of (store (exec u w op)) k = Fetching \<and>
    entry_status_of (store w) k \<noteq> Fetching \<longrightarrow>
      op = Fetch k \<or> (op = Resolve k \<and> entry_status_of (store w) k \<noteq> Fetched)) \<and>
   (entry_status_of (store w) k = Fetched \<longrightarrow>
      entry_status_of (store (exec u w op)) k = Fetched \<or> op = Fetch k)"
  by (cases op)
     (auto simp: model_defs entry_status_of_def isPending_def update_conv' Let_def
        split: option.splits sum.splits list.splits if_splits)

theorem entry_status_moves_forward_witness:
  "entry_status_of
     (store (foldl (exec sample_util) INITIAL_WORLD
        [Resolve ''UA-1-1'', FetchSettled ''UA-1-1'' (Inl sample_error)])) ''UA-1-1'' = Errored \<and>
   entry_status_of
     (store (foldl (exec sample_util) INITIAL_WORLD
        [Resolve ''UA-1-1'', FetchSettled ''UA-1-1'' (Inl sample_error), Resolve ''UA-1-1'']))
     ''UA-1-1'' = Fetching \<and>
   entry_status_of
     (store (foldl (exec sample_util) INITIAL_WORLD
        [Resolve ''UA-1-1'', FetchSettled ''UA-1-1'' (Inr [sample_profile])])) ''UA-1-1'' = Fetched \<and>
   entry_status_of
     (store (foldl (exec sample_util) INITIAL_WORLD
        [Resolve ''UA-1-1'', FetchSettled ''UA-1-1'' (Inr [sample_profile]), Resolve ''UA-1-1'']))
     ''UA-1-1'' = Fetched"
proof -
  let ?e = "foldl (exec sample_util) INITIAL_WORLD
              [Resolve ''UA-1-1'', FetchSettled ''UA-1-1'' (Inl sample_error)]"
  let ?f = "foldl (exec sample_util) INITIAL_WORLD
              [Resolve ''UA-1-1'', FetchSettled ''UA-1-1'' (Inr [sample_profile])]"
  have e: "entry_status_of (store ?e) ''UA-1-1'' = Errored"
    by (simp add: sample_defs model_defs entry_status_of_def isPending_def)
  have e': "entry_status_of (store (exec sample_util ?e (Resolve ''UA-1-1''))) ''UA-1-1'' = Fetching"
    by (simp add: sample_defs model_defs entry_status_of_def isPending_def)
  have f: "entry_status_of (store ?f) ''UA-1-1'' = Fetched"
    by (simp add: sample_defs model_defs entry_status_of_def isPending_def)
  have hyp1: "status_rank (entry_status_of (store (exec sample_util ?e (Resolve ''UA-1-1''))) ''UA-1-1'')
                < status_rank (entry_status_of (store ?e) ''UA-1-1'')"
    using e e' by simp
  have hyp2: "entry_status_of (store (exec sample_util ?e (Resolve ''UA-1-1''))) ''UA-1-1'' = Fetching \<and>
              entry_status_of (store ?e) ''UA-1-1'' \<noteq> Fetching"
    using e e' by simp
  have c1: "Resolve ''UA-1-1'' = Fetch ''UA-1-1'' \<or>
            (Resolve ''UA-1-1'' = Resolve ''UA-1-1'' \<and> entry_status_of (store ?e) ''UA-1-1'' = Errored)"
    using hyp1 hyp2 entry_status_moves_forward [of sample_util ?e "Resolve ''UA-1-1''" "''UA-1-1''"]
    by blast
  have c2: "entry_status_of (store (exec sample_util ?f (Resolve ''UA-1-1''))) ''UA-1-1'' = Fetched"
    using f entry_status_moves_forward [of sample_util ?f "Resolve ''UA-1-1''" "''UA-1-1''"]
    by simp
  show ?thesis using c1 c2 e' f by simp
qed

subsection \<open>Selecting a profile\<close>

text \<open>
  C9. When the resolver runs for a valid property ID and has a profiles list, either
  cached or as the response of its fetch, then if no profile ID was selected
  (\<^verbatim>\<open>undefined\<close> or empty) the profile ID of the store becomes the id of the first
  profile of the list, or \<open>PROFILE_CREATE\<close> when the list is empty; a profile ID already
  selected stays; and without a list (the fetch returned no response) nothing changes.
\<close>

theorem resolver_selects_profile:
  "(isValidPropertyID u k \<and> baseSelectors_getProfiles (store w) k = Some ps \<longrightarrow>
      (\<exists>w'. baseResolvers_getProfiles u k w = Returned w' \<and>
         getProfileID (store w') =
           (if truthy (getProfileID (store w)) then getProfileID (store w)
            else Some (case ps of [] \<Rightarrow> PROFILE_CREATE u | p # _ \<Rightarrow> profile_id p)))) \<and>
   (response r = Some ps \<longrightarrow>
      getProfileID (store (baseResolvers_getProfiles_resume u r w)) =
        (if truthy (getProfileID (store w)) then getProfileID (store w)
         else Some (case ps of [] \<Rightarrow> PROFILE_CREATE u | p # _ \<Rightarrow> profile_id p))) \<and>
   (response r = None \<longrightarrow> baseResolvers_getProfiles_resume u r w = w)"
  by (simp add: baseResolvers_getProfiles_def baseResolvers_getProfiles_select_def
      baseResolvers_getProfiles_resume_def getProfileID_def setProfileID_def Let_def)

theorem resolver_selects_profile_witness:
  "isValidPropertyID sample_util ''UA-1-1'' \<and>
   baseSelectors_getProfiles
     (store (exec sample_util INITIAL_WORLD (FetchSettled ''UA-1-1'' (Inr [sample_profile]))))
     ''UA-1-1'' = Some [sample_profile] \<and>
   (\<exists>w'. baseResolvers_getProfiles sample_util ''UA-1-1''
            (exec sample_util INITIAL_WORLD (FetchSettled ''UA-1-1'' (Inr [sample_profile])))
          = Returned w' \<and> getProfileID (store w') = Some ''987'') \<and>
   getProfileID (store (baseResolvers_getProfiles_resume sample_util
                          \<lparr>response = Some [], error = None\<rparr> INITIAL_WORLD))
     = Some ''profile_create'' \<and>
   baseResolvers_getProfiles_resume sample_util
     \<lparr>response = None, error = Some sample_error\<rparr> INITIAL_WORLD = INITIAL_WORLD"
proof -
  let ?w = "exec sample_util INITIAL_WORLD (FetchSettled ''UA-1-1'' (Inr [sample_profile]))"
  have h1: "isValidPropertyID sample_util ''UA-1-1''"
    by (simp add: sample_util_def)
  have h2: "baseSelectors_getProfiles (store ?w) ''UA-1-1'' = Some [sample_profile]"
    by (simp add: sample_defs model_defs)
  have t1: "\<not> truthy (getProfileID (store ?w))"
    by (simp add: sample_defs model_defs truthy_def)
  have t2: "\<not> truthy (getProfileID (store INITIAL_WORLD))"
    by (simp add: sample_defs model_defs truthy_def)
  have i: "profile_id sample_profile = ''987''" "PROFILE_CREATE sample_util = ''profile_create''"
    by (simp_all add: sample_defs)
  have a: "\<exists>w'. baseResolvers_getProfiles sample_util ''UA-1-1'' ?w = Returned w' \<and>
             getProfileID (store w') = Some ''987''"
    using h1 h2 t1 i
      resolver_selects_profile [of sample_util "''UA-1-1''" ?w "[sample_profile]"]
    by simp
  have b: "getProfileID (store (baseResolvers_getProfiles_resume sample_util
                          \<lparr>response = Some [], error = None\<rparr> INITIAL_WORLD))
             = Some ''profile_create''"
    using t2 i
      resolver_selects_profile
        [of sample_util _ INITIAL_WORLD "[]" "\<lparr>response = Some [], error = None\<rparr>"]
    by simp
  have c: "baseResolvers_getProfiles_resume sample_util
             \<lparr>response = None, error = Some sample_error\<rparr> INITIAL_WORLD = INITIAL_WORLD"
    using resolver_selects_profile
        [of sample_util _ INITIAL_WORLD _ "\<lparr>response = None, error = Some sample_error\<rparr>"]
    by simp
  show ?thesis using h1 h2 a b c by blast
qed

subsection \<open>Creating a profile: the in-flight flag\<close>

text \<open>
  C10. The selector \<open>isDoingCreateProfile\<close> takes no key. It returns \<^verbatim>\<open>true\<close> exactly
  when some entry of the object of the create store is \<^verbatim>\<open>true\<close>, whatever its
  parameters; the keys of the object being distinct, that is exactly when a
  \<open>createProfile\<close> request is in flight for some property ID and profile name.
\<close>

theorem isDoingCreateProfile_any_in_flight:
  "(baseSelectors_isDoingCreateProfile s \<longleftrightarrow>
      (\<exists>params. (params, True) \<in> set (isFetchingCreateProfile s))) \<and>
   (distinct (map fst (isFetchingCreateProfile s)) \<longrightarrow>
      (baseSelectors_isDoingCreateProfile s \<longleftrightarrow>
         (\<exists>params. isPending (isFetchingCreateProfile s) params)))"
proof -
  have a: "baseSelectors_isDoingCreateProfile s \<longleftrightarrow>
           (\<exists>params. (params, True) \<in> set (isFetchingCreateProfile s))"
    by (simp add: baseSelectors_isDoingCreateProfile_def list_ex_values)
  have b: "(\<exists>params. isPending (isFetchingCreateProfile s) params) \<longleftrightarrow>
           (\<exists>params. (params, True) \<in> set (isFetchingCreateProfile s))"
    if "distinct (map fst (isFetchingCreateProfile s))"
    using that by (simp add: isPending_def)
  show ?thesis using a b by blast
qed

theorem isDoingCreateProfile_any_in_flight_witness:
  "distinct (map fst (isFetchingCreateProfile
      (store (exec sample_util INITIAL_WORLD (Create ''UA-1-1'' ''Main''))))) \<and>
   baseSelectors_isDoingCreateProfile
     (store (exec sample_util INITIAL_WORLD (Create ''UA-1-1'' ''Main''))) \<and>
   isPending (isFetchingCreateProfile
      (store (exec sample_util INITIAL_WORLD (Create ''UA-1-1'' ''Main''))))
     (''UA-1-1'', ''Main'') \<and>
   \<not> baseSelectors_isDoingCreateProfile INITIAL_STATE"
proof -
  let ?s = "store (exec sample_util INITIAL_WORLD (Create ''UA-1-1'' ''Main''))"
  have h: "distinct (map fst (isFetchingCreateProfile ?s))"
    by (simp add: sample_defs model_defs isPending_def)
  have p: "isPending (isFetchingCreateProfile ?s) (''UA-1-1'', ''Main'')"
    by (simp add: sample_defs model_defs isPending_def)
  have n: "\<not> (\<exists>params. (params, True) \<in> set (isFetchingCreateProfile INITIAL_STATE))"
    by (simp add: INITIAL_STATE_def)
  have a: "baseSelectors_isDoingCreateProfile ?s"
    using h p isDoingCreateProfile_any_in_flight [of ?s] by blast
  have b: "\<not> baseSelectors_isDoingCreateProfile INITIAL_STATE"
    using n isDoingCreateProfile_any_in_flight [of INITIAL_STATE] by blast
  show ?thesis using h p a b by blast
qed

end
